theory Spec2Isabelle
  imports Complex_Main "HOL-Library.Sublist"
begin

section \<open>Text primitives used by the excuse generator\<close>

text \<open>
  The generator of \<^verbatim>\<open>app.py\<close> works on Python \<^verbatim>\<open>str\<close> values. A text is
  modelled as a \<^typ>\<open>string\<close>: a list of 8-bit characters, each read as the code point
  of that number (0 to 255); texts with code points above 255 are outside the model. The
  built-in operations the generator relies on are written out for that range:
  \<^item> \<^verbatim>\<open>c.isspace()\<close>: the code points 9 to 13, 28 to 32, 133 and 160;
  \<^item> \<^verbatim>\<open>s.lower()\<close>: A to Z and the accented capitals 192 to 222 (without the
    multiplication sign 215) move up by 32, every other character stays;
  \<^item> \<^verbatim>\<open>s.split()\<close>: the maximal runs of non-whitespace characters, in order;
  \<^item> \<^verbatim>\<open>w in s\<close>: \<open>w\<close> occurs in \<open>s\<close> as a contiguous block.
\<close>

definition isspace :: "char \<Rightarrow> bool" where
  "isspace c = (let n = (of_char c :: nat) in (9 \<le> n \<and> n \<le> 13) \<or> (28 \<le> n \<and> n \<le> 32) \<or> n = 133 \<or> n = 160)"

definition lower_char :: "char \<Rightarrow> char" where
  "lower_char c =
     (let n = (of_char c :: nat)
      in if (65 \<le> n \<and> n \<le> 90) \<or> (192 \<le> n \<and> n \<le> 222 \<and> n \<noteq> 215)
         then char_of (n + 32) else c)"

definition str_lower :: "string \<Rightarrow> string" where
  "str_lower s = map lower_char s"

fun split_from :: "string \<Rightarrow> string \<Rightarrow> string list" where
  "split_from w [] = (if w = [] then [] else [w])"
| "split_from w (c # cs) =
     (if isspace c then (if w = [] then split_from [] cs else w # split_from [] cs)
      else split_from (w @ [c]) cs)"

definition str_split :: "string \<Rightarrow> string list" where
  "str_split s = split_from [] s"

definition str_strip :: "string \<Rightarrow> string" where
  "str_strip s = rev (dropWhile isspace (rev (dropWhile isspace s)))"

fun str_in :: "string \<Rightarrow> string \<Rightarrow> bool" where
  "str_in w [] = (w = [])"
| "str_in w (c # cs) = (prefix w (c # cs) \<or> str_in w cs)"

text \<open>\<^verbatim>\<open>d.get(k, default)\<close> on a dictionary.\<close>

definition dict_get :: "('k \<rightharpoonup> 'v) \<Rightarrow> 'k \<Rightarrow> 'v \<Rightarrow> 'v" where
  "dict_get d k dflt = (case d k of Some v \<Rightarrow> v | None \<Rightarrow> dflt)"

section \<open>The believability scorer\<close>

text \<open>
  \<^verbatim>\<open>ExcuseGenerator.calculate_believability\<close>. Every constant of the scorer is a
  multiple of one half below sixteen, so the floating-point sums of the source are exact
  and the score is modelled as a \<^typ>\<open>real\<close>.
\<close>

definition specific_words :: "string list" where
  "specific_words = [''doctor'', ''meeting'', ''emergency'', ''appointment'', ''family'',
     ''car'', ''sick'', ''traffic'', ''urgent'', ''hospital'']"

definition urgency_words :: "string \<rightharpoonup> string list" where
  "urgency_words = [
     ''high'' \<mapsto> [''emergency'', ''urgent'', ''immediately'', ''crisis'', ''hospital'', ''serious''],
     ''medium'' \<mapsto> [''appointment'', ''meeting'', ''issue'', ''problem'', ''doctor'', ''important''],
     ''low'' \<mapsto> [''feeling'', ''might'', ''possibly'', ''may'', ''think'', ''probably'']]"

text \<open>The three contributions, in the order the source adds them to the score.\<close>

definition length_adjust :: "string \<Rightarrow> real" where
  "length_adjust excuse_text =
     (let length = List.length (str_split excuse_text)
      in if 10 \<le> length \<and> length \<le> 40 then 1.5
         else if length < 5 \<or> length > 60 then - 1.0
         else 0)"

definition specificity :: "string \<Rightarrow> nat" where
  "specificity excuse_text =
     sum_list (map (\<lambda>word. 1) (filter (\<lambda>word. str_in word (str_lower excuse_text)) specific_words))"

definition specificity_bonus :: "nat \<Rightarrow> real" where
  "specificity_bonus n = min (real n * 0.5) 2.0"

definition urgency_bonus :: "string \<Rightarrow> string \<Rightarrow> real" where
  "urgency_bonus excuse_text urgency =
     (if list_ex (\<lambda>word. str_in word (str_lower excuse_text)) (dict_get urgency_words urgency [])
      then 1.5 else 0)"

definition calculate_believability :: "string \<Rightarrow> string \<Rightarrow> string \<Rightarrow> real" where
  "calculate_believability excuse_text category urgency =
     min (5.0 + length_adjust excuse_text
            + specificity_bonus (specificity excuse_text)
            + urgency_bonus excuse_text urgency)
         10.0"

section \<open>The fallback selector\<close>

text \<open>
  \<^verbatim>\<open>ExcuseGenerator.get_fallback_excuse\<close>. The table \<^verbatim>\<open>excuses_db\<close> is read
  from \<^verbatim>\<open>excuses.json\<close> when the process starts; it is a parameter here: a
  dictionary from language to category to urgency to a list of candidate sentences.
  The two random draws are parameters as well: \<open>k\<close> is the integer behind
  \<^verbatim>\<open>random.choice\<close>, which indexes the sequence below its length and raises
  \<^verbatim>\<open>IndexError\<close> on an empty one, and \<open>r\<close> is the value of \<^verbatim>\<open>random.random()\<close>
  behind \<^verbatim>\<open>random.uniform(a, b)\<close>, which returns \<^verbatim>\<open>a + (b - a) * r\<close>.
  The jittered sum is taken in the reals; the clamp that follows it returns one of its
  three arguments, so the bounds 5 and 10 are those of the source.
\<close>

datatype py_exception = IndexError | IntegrityError | OverflowError | ExternalError string

type_synonym excuses_table = "string \<rightharpoonup> (string \<rightharpoonup> (string \<rightharpoonup> string list))"

record excuse_data =
  out_excuse :: string
  out_believability_score :: real
  out_category :: string
  out_scenario :: string
  out_urgency :: string

definition random_choice :: "nat \<Rightarrow> 'a list \<Rightarrow> py_exception + 'a" where
  "random_choice k seq = (if seq = [] then Inl IndexError else Inr (seq ! (k mod length seq)))"

definition random_uniform :: "real \<Rightarrow> real \<Rightarrow> real \<Rightarrow> real" where
  "random_uniform r a b = a + (b - a) * r"

text \<open>The table written into the source for the case that \<^verbatim>\<open>excuses.json\<close> is not found.\<close>

definition minimal_fallbacks :: excuses_table where
  "minimal_fallbacks = [''en'' \<mapsto> [''work'' \<mapsto> [
     ''medium'' \<mapsto> [''I'' @ [CHR 0x27] @ ''m not feeling well and need to rest today.''],
     ''high'' \<mapsto> [''I have an emergency that requires immediate attention.''],
     ''low'' \<mapsto> [''I have some personal matters to attend to.'']]]]"

definition language_excuses :: "excuses_table \<Rightarrow> string \<Rightarrow> (string \<rightharpoonup> (string \<rightharpoonup> string list))" where
  "language_excuses excuses_db language =
     dict_get excuses_db language (dict_get excuses_db ''en'' Map.empty)"

definition category_excuses :: "excuses_table \<Rightarrow> string \<Rightarrow> string \<Rightarrow> (string \<rightharpoonup> string list)" where
  "category_excuses excuses_db category language =
     dict_get (language_excuses excuses_db language) category
       (dict_get (language_excuses excuses_db language) ''work'' Map.empty)"

definition excuse_options :: "excuses_table \<Rightarrow> string \<Rightarrow> string \<Rightarrow> string \<Rightarrow> string list" where
  "excuse_options excuses_db category urgency language =
     dict_get (category_excuses excuses_db category language) urgency
       (dict_get (category_excuses excuses_db category language) ''medium''
          [''I need to handle something important today.''])"

definition base_score :: "string \<rightharpoonup> real" where
  "base_score = [''low'' \<mapsto> 6.5, ''medium'' \<mapsto> 7.5, ''high'' \<mapsto> 8.5]"

definition get_fallback_excuse ::
  "excuses_table \<Rightarrow> nat \<Rightarrow> real \<Rightarrow> string \<Rightarrow> string \<Rightarrow> string \<Rightarrow> string \<Rightarrow> excuse_data" where
  "get_fallback_excuse excuses_db k r category scenario urgency language =
     (case random_choice k (excuse_options excuses_db category urgency language) of
        Inr excuse_text \<Rightarrow>
          (let score = dict_get base_score urgency 7.5 + random_uniform r (- 0.8) 1.2
           in \<lparr>out_excuse = excuse_text,
               out_believability_score = min (max score 5.0) 10.0,
               out_category = category, out_scenario = scenario, out_urgency = urgency\<rparr>)
      | Inl e \<Rightarrow>
          \<lparr>out_excuse = ''I have an unexpected situation that requires my attention.'',
           out_believability_score = 7.0,
           out_category = category, out_scenario = scenario, out_urgency = urgency\<rparr>)"

section \<open>The generator\<close>

text \<open>
  \<^verbatim>\<open>ExcuseGenerator.generate_excuse\<close>. The ambient values it reads are collected in an
  environment: the configured key, the outcome of the one request to the external text
  generator (an exception of any kind, or the \<^verbatim>\<open>content\<close> string of the first choice),
  the two random draws and the table. The prompt is built only to be sent with that
  request and is not modelled. The function returns, beside its result, the calls it made
  to the external generator and to the fallback selector, in order.
\<close>

datatype call = OpenAICall | FallbackCall

record env =
  api_key :: string
  chat_completion :: "py_exception + string"
  choice_draw :: nat
  uniform_draw :: real
  env_excuses_db :: excuses_table

text \<open>The method call \<^verbatim>\<open>self.get_fallback_excuse(...)\<close> in an environment.\<close>

definition fallback_of :: "env \<Rightarrow> string \<Rightarrow> string \<Rightarrow> string \<Rightarrow> string \<Rightarrow> excuse_data" where
  "fallback_of E category scenario urgency language =
     get_fallback_excuse (env_excuses_db E) (choice_draw E) (uniform_draw E)
       category scenario urgency language"

definition generate_excuse ::
  "env \<Rightarrow> string \<Rightarrow> string \<Rightarrow> string \<Rightarrow> string \<Rightarrow> call list \<times> excuse_data" where
  "generate_excuse E category scenario urgency language =
     (if api_key E = [] then
        ([FallbackCall], fallback_of E category scenario urgency language)
      else
        (case chat_completion E of
           Inr content \<Rightarrow>
             (let excuse_text = str_strip content;
                  believability_score = calculate_believability excuse_text category urgency
              in ([OpenAICall],
                  \<lparr>out_excuse = excuse_text, out_believability_score = believability_score,
                   out_category = category, out_scenario = scenario, out_urgency = urgency\<rparr>))
         | Inl e \<Rightarrow>
             ([OpenAICall, FallbackCall], fallback_of E category scenario urgency language)))"

section \<open>The persistent store and the two request handlers\<close>

text \<open>
  The three tables of the SQLAlchemy models, each a list of rows, in the SQLite store the
  application is configured with by default. \<^verbatim>\<open>Model.query.get\<close> finds the row with
  the given primary key; binding a key outside the signed 64-bit range of an SQLite
  integer raises \<^verbatim>\<open>OverflowError\<close>. A commit that inserts a \<^verbatim>\<open>User\<close> whose primary
  key, user name or e-mail address (the columns declared unique) is already in the table
  raises \<^verbatim>\<open>IntegrityError\<close>. The handlers catch neither: the request ends with a
  server error and nothing of it is stored. An inserted row without an id gets 1 in an
  empty table and otherwise the largest id plus one; when the largest id is the largest
  integer of the store, SQLite settles on an unused id drawn at random, the parameter
  \<open>rowid_draw\<close>. The foreign keys are declared but not checked on insertion. Time stamps
  come from the parameter \<open>now\<close>.
\<close>

definition sqlite_max_integer :: int where
  "sqlite_max_integer = 9223372036854775807"

definition sqlite_min_integer :: int where
  "sqlite_min_integer = - 9223372036854775808"

definition sqlite_integer :: "int \<Rightarrow> bool" where
  "sqlite_integer i = (sqlite_min_integer \<le> i \<and> i \<le> sqlite_max_integer)"

record user_row =
  u_id :: int
  u_username :: string
  u_email :: string
  u_phone :: "string option"
  u_preferences :: "string option"
  u_created_at :: nat

record excuse_row =
  e_id :: int
  e_user_id :: int
  e_category :: string
  e_scenario :: string
  e_excuse_text :: string
  e_believability_score :: real
  e_urgency_level :: string
  e_language :: string
  e_proof_generated :: bool
  e_times_used :: int
  e_effectiveness_rating :: real
  e_is_favorite :: bool
  e_created_at :: nat
  e_last_used :: "nat option"

record proof_row =
  p_id :: int
  p_excuse_id :: int
  p_document_type :: string
  p_file_path :: string
  p_generated_at :: nat

record database =
  users :: "user_row list"
  excuses :: "excuse_row list"
  proof_documents :: "proof_row list"

definition user_get :: "database \<Rightarrow> int \<Rightarrow> py_exception + user_row option" where
  "user_get db i =
     (if sqlite_integer i then Inr (find (\<lambda>u. u_id u = i) (users db)) else Inl OverflowError)"

definition excuse_get :: "database \<Rightarrow> int \<Rightarrow> py_exception + excuse_row option" where
  "excuse_get db i =
     (if sqlite_integer i then Inr (find (\<lambda>e. e_id e = i) (excuses db)) else Inl OverflowError)"

definition next_id :: "int \<Rightarrow> int list \<Rightarrow> int" where
  "next_id rowid_draw ids =
     (if ids = [] then 1
      else if fold max ids (hd ids) < sqlite_max_integer then fold max ids (hd ids) + 1
      else rowid_draw)"

definition commit_user :: "database \<Rightarrow> user_row \<Rightarrow> py_exception + database" where
  "commit_user db u =
     (if list_ex (\<lambda>v. u_id v = u_id u \<or> u_username v = u_username u \<or> u_email v = u_email u) (users db)
      then Inl IntegrityError
      else Inr (db\<lparr>users := users db @ [u]\<rparr>))"

datatype response =
    ExcuseResponse int string real string string
  | ProofResponse string string
  | Failure string

record generate_request =
  rq_category :: "string option"
  rq_scenario :: "string option"
  rq_urgency :: "string option"
  rq_language :: "string option"
  rq_user_id :: "int option"

definition json_get :: "'a option \<Rightarrow> 'a \<Rightarrow> 'a" where
  "json_get field dflt = (case field of Some v \<Rightarrow> v | None \<Rightarrow> dflt)"

text \<open>
  The route \<^verbatim>\<open>POST /api/generate-excuse\<close>; the fields of \<open>ExcuseResponse\<close> are
  \<^verbatim>\<open>excuse_id\<close>, \<^verbatim>\<open>excuse\<close>, \<^verbatim>\<open>believability_score\<close>, \<^verbatim>\<open>category\<close> and
  \<^verbatim>\<open>urgency\<close> of the success answer; \<open>save_excuse\<close> is the part of the handler
  after the user has been looked up.
\<close>

definition save_excuse ::
  "database \<Rightarrow> nat \<Rightarrow> int \<Rightarrow> int \<Rightarrow> string \<Rightarrow> string \<Rightarrow> string \<Rightarrow> string \<Rightarrow> excuse_data
     \<Rightarrow> (py_exception + response) \<times> database" where
  "save_excuse db now rowid_draw user_id category scenario urgency language excuse_data =
     (let excuse = \<lparr>e_id = next_id rowid_draw (map e_id (excuses db)),
                     e_user_id = user_id,
                     e_category = category,
                     e_scenario = scenario,
                     e_excuse_text = out_excuse excuse_data,
                     e_believability_score = out_believability_score excuse_data,
                     e_urgency_level = urgency,
                     e_language = language,
                     e_proof_generated = False,
                     e_times_used = 0,
                     e_effectiveness_rating = 0.0,
                     e_is_favorite = False,
                     e_created_at = now,
                     e_last_used = None\<rparr>
      in (Inr (ExcuseResponse (e_id excuse) (out_excuse excuse_data)
                 (out_believability_score excuse_data) category urgency),
          db\<lparr>excuses := excuses db @ [excuse]\<rparr>))"

definition generate_excuse_route ::
  "env \<Rightarrow> database \<Rightarrow> nat \<Rightarrow> int \<Rightarrow> generate_request \<Rightarrow> (py_exception + response) \<times> database" where
  "generate_excuse_route E db now rowid_draw data =
     (let category = json_get (rq_category data) ''work'';
          scenario = json_get (rq_scenario data) ''general'';
          urgency = json_get (rq_urgency data) ''medium'';
          language = json_get (rq_language data) ''en'';
          user_id = json_get (rq_user_id data) 1;
          excuse_data = snd (generate_excuse E category scenario urgency language)
      in case user_get db user_id of
           Inl e \<Rightarrow> (Inl e, db)
         | Inr (Some user) \<Rightarrow>
             save_excuse db now rowid_draw user_id category scenario urgency language excuse_data
         | Inr None \<Rightarrow>
             (case commit_user db
                     \<lparr>u_id = 1, u_username = ''demo_user'', u_email = ''demo@example.com'',
                      u_phone = None, u_preferences = None, u_created_at = now\<rparr> of
                Inl e \<Rightarrow> (Inl e, db)
              | Inr db' \<Rightarrow>
                  save_excuse db' now rowid_draw user_id category scenario urgency language
                    excuse_data))"

text \<open>
  The route \<^verbatim>\<open>POST /api/generate-proof\<close>. The three renderers draw with external
  libraries and write files; each returns the path it wrote or nothing, and is a
  parameter. A request without an \<^verbatim>\<open>excuse_id\<close> finds no excuse.
  \<open>ProofResponse\<close> carries \<^verbatim>\<open>proof_path\<close> and \<^verbatim>\<open>download_url\<close>; \<open>store_proof\<close>
  is the part of the handler that runs once a proof file exists.
\<close>

record renderers =
  generate_fake_email :: "excuse_row \<Rightarrow> string option"
  generate_fake_receipt :: "excuse_row \<Rightarrow> string option"
  generate_medical_note :: "excuse_row \<Rightarrow> string option"

record proof_request =
  rq_excuse_id :: "int option"
  rq_proof_type :: "string option"

definition generate_proof_document :: "renderers \<Rightarrow> excuse_row \<Rightarrow> string \<Rightarrow> string option" where
  "generate_proof_document R excuse proof_type =
     (if proof_type = ''email'' then generate_fake_email R excuse
      else if proof_type = ''receipt'' then generate_fake_receipt R excuse
      else if proof_type = ''medical_note'' then generate_medical_note R excuse
      else None)"

definition basename :: "string \<Rightarrow> string" where
  "basename path = rev (takeWhile (\<lambda>c. c \<noteq> CHR ''/'') (rev path))"

definition store_proof ::
  "database \<Rightarrow> nat \<Rightarrow> int \<Rightarrow> excuse_row \<Rightarrow> int \<Rightarrow> string \<Rightarrow> string
     \<Rightarrow> (py_exception + response) \<times> database" where
  "store_proof db now rowid_draw excuse excuse_id proof_type proof_path =
     (let proof_doc = \<lparr>p_id = next_id rowid_draw (map p_id (proof_documents db)),
                        p_excuse_id = excuse_id,
                        p_document_type = proof_type,
                        p_file_path = proof_path,
                        p_generated_at = now\<rparr>
      in (Inr (ProofResponse proof_path (''/static/proofs/'' @ basename proof_path)),
          db\<lparr>proof_documents := proof_documents db @ [proof_doc],
             excuses := map (\<lambda>e. if e_id e = e_id excuse
                                   then e\<lparr>e_proof_generated := True\<rparr> else e)
                          (excuses db)\<rparr>))"

definition generate_proof ::
  "renderers \<Rightarrow> database \<Rightarrow> nat \<Rightarrow> int \<Rightarrow> proof_request \<Rightarrow> (py_exception + response) \<times> database" where
  "generate_proof R db now rowid_draw data =
     (let proof_type = json_get (rq_proof_type data) ''email''
      in case rq_excuse_id data of
           None \<Rightarrow> (Inr (Failure ''Excuse not found''), db)
         | Some excuse_id \<Rightarrow>
             (case excuse_get db excuse_id of
                Inl e \<Rightarrow> (Inl e, db)
              | Inr None \<Rightarrow> (Inr (Failure ''Excuse not found''), db)
              | Inr (Some excuse) \<Rightarrow>
                  (case generate_proof_document R excuse proof_type of
                     Some proof_path \<Rightarrow>
                       (if proof_path \<noteq> []
                        then store_proof db now rowid_draw excuse excuse_id proof_type proof_path
                        else (Inr (Failure ''Failed to generate proof''), db))
                   | None \<Rightarrow> (Inr (Failure ''Failed to generate proof''), db))))"

section \<open>The scorer as the specification words it\<close>

text \<open>
  The reference the scorer is compared with follows the specification, not the source:
  a vocabulary and three keyword sets, the number of vocabulary words that occur in the
  lower-cased text, one half per match with a cap of two, a flat one and a half when any
  keyword of the urgency's set occurs, and a final minimum with ten. It takes no
  category.
\<close>

definition spec_vocabulary :: "string set" where
  "spec_vocabulary = {''doctor'', ''meeting'', ''emergency'', ''appointment'', ''family'',
     ''car'', ''sick'', ''traffic'', ''urgent'', ''hospital''}"

definition spec_urgency_keywords :: "string \<Rightarrow> string set" where
  "spec_urgency_keywords urgency =
     (if urgency = ''high'' then
        {''emergency'', ''urgent'', ''immediately'', ''crisis'', ''hospital'', ''serious''}
      else if urgency = ''medium'' then
        {''appointment'', ''meeting'', ''issue'', ''problem'', ''doctor'', ''important''}
      else if urgency = ''low'' then
        {''feeling'', ''might'', ''possibly'', ''may'', ''think'', ''probably''}
      else {})"

definition spec_word_count :: "string \<Rightarrow> nat" where
  "spec_word_count text = length (str_split text)"

definition spec_matches :: "string \<Rightarrow> nat" where
  "spec_matches text = card {w \<in> spec_vocabulary. str_in w (str_lower text)}"

definition spec_score :: "string \<Rightarrow> string \<Rightarrow> real" where
  "spec_score text urgency =
     (let n = spec_word_count text;
          s1 = (if 10 \<le> n \<and> n \<le> 40 then 5.0 + 1.5
                else if n < 5 \<or> 60 < n then 5.0 - 1.0
                else 5.0);
          s2 = s1 + (if spec_matches text \<le> 4 then 0.5 * real (spec_matches text) else 2.0);
          s3 = (if \<exists>k \<in> spec_urgency_keywords urgency. str_in k (str_lower text)
                then s2 + 1.5 else s2)
      in min s3 10.0)"

section \<open>Notation of the claims and sample inputs\<close>

text \<open>The base score by urgency as the specification tabulates it, with its default.\<close>

definition urgency_base :: "string \<Rightarrow> real" where
  "urgency_base urgency =
     (if urgency = ''low'' then 6.5 else if urgency = ''medium'' then 7.5
      else if urgency = ''high'' then 8.5 else 7.5)"

text \<open>The sentence returned when the selection fails.\<close>

definition sentinel_excuse :: "string \<Rightarrow> string \<Rightarrow> string \<Rightarrow> excuse_data" where
  "sentinel_excuse category scenario urgency =
     \<lparr>out_excuse = ''I have an unexpected situation that requires my attention.'',
      out_believability_score = 7.0,
      out_category = category, out_scenario = scenario, out_urgency = urgency\<rparr>"

text \<open>A table whose list for English, work, high urgency is empty.\<close>

definition empty_high_table :: excuses_table where
  "empty_high_table = [''en'' \<mapsto> [''work'' \<mapsto> [''high'' \<mapsto> []]]]"

text \<open>Two environments: no key configured, and a key with a failing external request.\<close>

definition no_key_env :: env where
  "no_key_env = \<lparr>api_key = [], chat_completion = Inr ''unused'', choice_draw = 0,
     uniform_draw = 1 / 2, env_excuses_db = minimal_fallbacks\<rparr>"

definition failing_env :: env where
  "failing_env = \<lparr>api_key = ''sk-test'', chat_completion = Inl (ExternalError ''quota''),
     choice_draw = 0, uniform_draw = 1 / 2, env_excuses_db = minimal_fallbacks\<rparr>"

text \<open>
  A store as the first request with \<^verbatim>\<open>user_id = 2\<close> leaves it: the demo user with
  id 1 and one excuse that names user 2.
\<close>

definition demo_user :: "nat \<Rightarrow> user_row" where
  "demo_user now = \<lparr>u_id = 1, u_username = ''demo_user'', u_email = ''demo@example.com'',
     u_phone = None, u_preferences = None, u_created_at = now\<rparr>"

definition sample_excuse :: excuse_row where
  "sample_excuse = \<lparr>e_id = 1, e_user_id = 2, e_category = ''work'', e_scenario = ''x'',
     e_excuse_text = ''I have an emergency that requires immediate attention.'',
     e_believability_score = 8.7, e_urgency_level = ''high'', e_language = ''en'',
     e_proof_generated = False, e_times_used = 0, e_effectiveness_rating = 0.0,
     e_is_favorite = False, e_created_at = 100, e_last_used = None\<rparr>"

definition sample_db :: database where
  "sample_db = \<lparr>users = [demo_user 100], excuses = [sample_excuse], proof_documents = []\<rparr>"

definition empty_db :: database where
  "empty_db = \<lparr>users = [], excuses = [], proof_documents = []\<rparr>"

definition request_user_2 :: generate_request where
  "request_user_2 = \<lparr>rq_category = Some ''work'', rq_scenario = Some ''x'',
     rq_urgency = Some ''high'', rq_language = Some ''en'', rq_user_id = Some 2\<rparr>"

definition always_renders :: renderers where
  "always_renders = \<lparr>generate_fake_email = (\<lambda>e. Some ''static/proofs/email.png''),
     generate_fake_receipt = (\<lambda>e. Some ''static/proofs/receipt.pdf''),
     generate_medical_note = (\<lambda>e. Some ''static/proofs/medical.pdf'')\<rparr>"

section \<open>Properties of the scorer\<close>

lemma length_adjust_range: "- 1 \<le> length_adjust t \<and> length_adjust t \<le> 1.5"
  by (simp add: length_adjust_def Let_def)

lemma urgency_bonus_range: "0 \<le> urgency_bonus t u \<and> urgency_bonus t u \<le> 1.5"
  by (simp add: urgency_bonus_def)

lemma specificity_bonus_mono: "m \<le> n \<Longrightarrow> specificity_bonus m \<le> specificity_bonus n"
  by (simp add: specificity_bonus_def min_def)

text \<open>
  Claim C1: for every excuse text, category and urgency the score of
  \<open>calculate_believability\<close> lies between 0 and 10, although the source only takes the
  minimum with 10 and never a maximum with 0.
\<close>

theorem calculate_believability_bounds:
  "0 \<le> calculate_believability excuse_text category urgency
   \<and> calculate_believability excuse_text category urgency \<le> 10"
proof -
  have a: "- 1 \<le> length_adjust excuse_text"
    using length_adjust_range by blast
  have b: "0 \<le> urgency_bonus excuse_text urgency"
    using urgency_bonus_range by blast
  have c: "0 \<le> specificity_bonus (specificity excuse_text)"
    by (simp add: specificity_bonus_def)
  show ?thesis
    unfolding calculate_believability_def using a b c by simp
qed

text \<open>The lowest score is 4 and the empty text has it, so the lower bound 0 is never met.\<close>

lemma calculate_believability_least:
  "4 \<le> calculate_believability excuse_text category urgency
   \<and> calculate_believability [] category ''high'' = 4"
proof -
  have a: "- 1 \<le> length_adjust excuse_text"
    using length_adjust_range by blast
  have b: "0 \<le> urgency_bonus excuse_text urgency"
    using urgency_bonus_range by blast
  have c: "0 \<le> specificity_bonus (specificity excuse_text)"
    by (simp add: specificity_bonus_def)
  have "4 \<le> calculate_believability excuse_text category urgency"
    unfolding calculate_believability_def using a b c by simp
  moreover have "calculate_believability [] category ''high'' = 4"
    by (simp add: calculate_believability_def length_adjust_def str_split_def specificity_def
        specific_words_def str_lower_def specificity_bonus_def urgency_bonus_def
        urgency_words_def dict_get_def)
  ultimately show ?thesis by simp
qed

subsection \<open>The source against the specification's wording\<close>

lemma distinct_specific_words: "distinct specific_words"
  by (simp add: specific_words_def)

lemma set_specific_words: "set specific_words = spec_vocabulary"
  by (simp add: specific_words_def spec_vocabulary_def)

lemma specificity_eq_length:
  "specificity t = length (filter (\<lambda>w. str_in w (str_lower t)) specific_words)"
  by (simp add: specificity_def sum_list_triv)

lemma specificity_spec_matches: "specificity t = spec_matches t"
proof -
  let ?P = "\<lambda>w. str_in w (str_lower t)"
  have "distinct (filter ?P specific_words)"
    using distinct_specific_words by simp
  then have "card (set (filter ?P specific_words)) = length (filter ?P specific_words)"
    by (rule distinct_card)
  moreover have "set (filter ?P specific_words) = {w \<in> spec_vocabulary. ?P w}"
    using set_specific_words by auto
  ultimately show ?thesis
    by (simp add: specificity_eq_length spec_matches_def)
qed

lemma specificity_bonus_cases: "specificity_bonus n = (if n \<le> 4 then 0.5 * real n else 2.0)"
  by (simp add: specificity_bonus_def min_def)

lemma urgency_keywords_high:
  "set (dict_get urgency_words ''high'' []) = spec_urgency_keywords ''high''"
  by (simp add: urgency_words_def dict_get_def spec_urgency_keywords_def)

lemma urgency_keywords_medium:
  "set (dict_get urgency_words ''medium'' []) = spec_urgency_keywords ''medium''"
  by (simp add: urgency_words_def dict_get_def spec_urgency_keywords_def)

lemma urgency_keywords_low:
  "set (dict_get urgency_words ''low'' []) = spec_urgency_keywords ''low''"
  by (simp add: urgency_words_def dict_get_def spec_urgency_keywords_def)

lemma urgency_keywords_other:
  "u \<notin> {''low'', ''medium'', ''high''} \<Longrightarrow> dict_get urgency_words u [] = []"
  by (simp add: urgency_words_def dict_get_def)

lemma urgency_bonus_spec:
  assumes "u \<in> {''low'', ''medium'', ''high''}"
  shows "urgency_bonus t u
         = (if \<exists>k \<in> spec_urgency_keywords u. str_in k (str_lower t) then 1.5 else 0)"
proof -
  have "set (dict_get urgency_words u []) = spec_urgency_keywords u"
    using assms urgency_keywords_high urgency_keywords_medium urgency_keywords_low by auto
  then show ?thesis
    by (simp add: urgency_bonus_def list_ex_iff)
qed

lemma length_adjust_spec:
  "length_adjust t =
     (let n = spec_word_count t
      in if 10 \<le> n \<and> n \<le> 40 then 1.5 else if n < 5 \<or> 60 < n then - 1.0 else 0)"
  by (simp add: length_adjust_def spec_word_count_def Let_def)

text \<open>
  Claim C2: for every text and category, and every urgency among low, medium and high,
  \<open>calculate_believability\<close> returns the score of the reference definition
  \<open>spec_score\<close>: 5, plus 1.5 for 10 to 40 words or minus 1 for fewer than 5 or more than
  60, plus one half for each vocabulary word found in the lower-cased text up to 2, plus a
  flat 1.5 when any keyword of the urgency occurs, and at most 10. The category does not
  change the result.
\<close>

theorem calculate_believability_refines_spec:
  assumes "urgency \<in> {''low'', ''medium'', ''high''}"
  shows "calculate_believability excuse_text category urgency = spec_score excuse_text urgency
         \<and> calculate_believability excuse_text category urgency
             = calculate_believability excuse_text other_category urgency"
proof -
  have "calculate_believability excuse_text category urgency = spec_score excuse_text urgency"
    unfolding calculate_believability_def spec_score_def
    by (simp add: length_adjust_spec urgency_bonus_spec [OF assms] specificity_bonus_cases
        specificity_spec_matches Let_def)
  moreover have "calculate_believability excuse_text category urgency
                 = calculate_believability excuse_text other_category urgency"
    by (simp add: calculate_believability_def)
  ultimately show ?thesis by simp
qed

theorem calculate_believability_refines_spec_witness:
  "''high'' \<in> {''low'', ''medium'', ''high''}
   \<and> calculate_believability ''I have an emergency that requires immediate attention.''
        ''work'' ''high'' = 7
   \<and> spec_score ''I have an emergency that requires immediate attention.'' ''high'' = 7
   \<and> calculate_believability ''I have an emergency that requires immediate attention.''
        ''family'' ''high'' = 7"
proof -
  have h: "''high'' \<in> {''low'', ''medium'', ''high''}"
    by simp
  have v: "calculate_believability ''I have an emergency that requires immediate attention.''
             ''work'' ''high'' = 7"
    by code_simp
  show ?thesis
    using calculate_believability_refines_spec [OF h,
        of "''I have an emergency that requires immediate attention.''" "''work''" "''family''"] v
    by simp
qed

subsection \<open>Monotonicity in the number of specific words\<close>

text \<open>
  Claim C6: of two texts with the same word-count contribution and the same urgency
  contribution, the one that matches at least as many words of the specificity
  vocabulary scores at least as much; the specificity bonus grows by one half with each
  match below four matches and is 2 from four matches on.
\<close>

theorem specificity_monotone:
  assumes "length_adjust text_a = length_adjust text_b"
    and "urgency_bonus text_a urgency_a = urgency_bonus text_b urgency_b"
    and "specificity text_a \<le> specificity text_b"
  shows "calculate_believability text_a category_a urgency_a
           \<le> calculate_believability text_b category_b urgency_b
         \<and> (m < 4 \<longrightarrow> specificity_bonus (Suc m) = specificity_bonus m + 0.5)
         \<and> (4 \<le> n \<longrightarrow> specificity_bonus n = 2.0)"
proof -
  have "specificity_bonus (specificity text_a) \<le> specificity_bonus (specificity text_b)"
    using assms(3) by (rule specificity_bonus_mono)
  then have "calculate_believability text_a category_a urgency_a
           \<le> calculate_believability text_b category_b urgency_b"
    unfolding calculate_believability_def using assms(1,2) by simp
  moreover have "m < 4 \<longrightarrow> specificity_bonus (Suc m) = specificity_bonus m + 0.5"
    by (simp add: specificity_bonus_def min_def algebra_simps)
  moreover have "4 \<le> n \<longrightarrow> specificity_bonus n = 2.0"
    by (simp add: specificity_bonus_def min_def)
  ultimately show ?thesis by blast
qed

theorem specificity_monotone_witness:
  "length_adjust ''My car broke down.'' = length_adjust ''Car stuck in traffic.''
   \<and> urgency_bonus ''My car broke down.'' ''low'' = urgency_bonus ''Car stuck in traffic.'' ''low''
   \<and> specificity ''My car broke down.'' = 1 \<and> specificity ''Car stuck in traffic.'' = 2
   \<and> calculate_believability ''My car broke down.'' ''work'' ''low'' = 4.5
   \<and> calculate_believability ''Car stuck in traffic.'' ''work'' ''low'' = 5
   \<and> calculate_believability ''My car broke down.'' ''work'' ''low''
        \<le> calculate_believability ''Car stuck in traffic.'' ''work'' ''low''
   \<and> specificity_bonus (Suc 3) = specificity_bonus 3 + 0.5
   \<and> specificity_bonus 7 = 2.0"
proof -
  have la: "length_adjust ''My car broke down.'' = length_adjust ''Car stuck in traffic.''"
    by code_simp
  have ub: "urgency_bonus ''My car broke down.'' ''low''
            = urgency_bonus ''Car stuck in traffic.'' ''low''"
    by code_simp
  have sa: "specificity ''My car broke down.'' = 1"
    by code_simp
  have sb: "specificity ''Car stuck in traffic.'' = 2"
    by code_simp
  have va: "calculate_believability ''My car broke down.'' ''work'' ''low'' = 4.5"
    by code_simp
  have vb: "calculate_believability ''Car stuck in traffic.'' ''work'' ''low'' = 5"
    by code_simp
  have le: "specificity ''My car broke down.'' \<le> specificity ''Car stuck in traffic.''"
    by (simp add: sa sb)
  note inst = specificity_monotone [OF la ub le, of "''work''" "''work''" 3 7]
  from inst have "specificity_bonus (Suc 3) = specificity_bonus 3 + 0.5" by simp
  moreover from inst have "specificity_bonus 7 = 2.0" by simp
  ultimately show ?thesis using inst la ub sa sb va vb by simp
qed

section \<open>Properties of the fallback selector\<close>

lemmas table_defs = excuse_options_def category_excuses_def language_excuses_def dict_get_def

lemma base_score_get:
  "dict_get base_score u d = (if u \<in> {''low'', ''medium'', ''high''} then urgency_base u else d)"
  by (simp add: base_score_def dict_get_def urgency_base_def)

lemma fallback_chosen:
  "excuse_options table c u l \<noteq> [] \<Longrightarrow>
   get_fallback_excuse table k r c s u l =
     \<lparr>out_excuse = excuse_options table c u l ! (k mod length (excuse_options table c u l)),
      out_believability_score = min (max (urgency_base u + random_uniform r (- 0.8) 1.2) 5.0) 10.0,
      out_category = c, out_scenario = s, out_urgency = u\<rparr>"
  by (simp add: get_fallback_excuse_def random_choice_def base_score_get urgency_base_def)

lemma fallback_failed:
  "excuse_options table c u l = [] \<Longrightarrow>
   get_fallback_excuse table k r c s u l = sentinel_excuse c s u"
  by (simp add: get_fallback_excuse_def random_choice_def sentinel_excuse_def)

lemma random_uniform_range:
  "0 \<le> r \<Longrightarrow> r < 1 \<Longrightarrow>
   - 0.8 \<le> random_uniform r (- 0.8) 1.2 \<and> random_uniform r (- 0.8) 1.2 \<le> 1.2"
  by (simp add: random_uniform_def)

lemma options_empty_high: "excuse_options empty_high_table ''work'' ''high'' ''en'' = []"
  by (simp add: table_defs empty_high_table_def)

lemma options_minimal_high:
  "excuse_options minimal_fallbacks ''work'' ''high'' ''en''
     = [''I have an emergency that requires immediate attention.'']"
  by (simp add: table_defs minimal_fallbacks_def)

lemma fallback_minimal_high:
  "get_fallback_excuse minimal_fallbacks 0 (1 / 2) ''work'' ''x'' ''high'' ''en''
     = \<lparr>out_excuse = ''I have an emergency that requires immediate attention.'',
        out_believability_score = 8.7,
        out_category = ''work'', out_scenario = ''x'', out_urgency = ''high''\<rparr>"
  by (simp add: fallback_chosen options_minimal_high urgency_base_def random_uniform_def)

subsection \<open>Degradation of the lookup\<close>




subsection \<open>The score of the fallback selector\<close>

text \<open>
  Claim C5 as stated fails: with the empty list for English, work, high urgency the
  returned score is 7, below the clamped sum of the base score 8.5 and the lowest jitter
  (the draw 0), which is 7.7.
\<close>

theorem fallback_score_unjittered_on_failure:
  "out_believability_score (get_fallback_excuse empty_high_table 0 0 ''work'' ''x'' ''high'' ''en'') = 7
   \<and> random_uniform 0 (- 0.8) 1.2 = - 0.8
   \<and> min (max (urgency_base ''high'' + random_uniform 0 (- 0.8) 1.2) 5.0) 10.0 = 7.7"
  by (simp add: fallback_failed options_empty_high sentinel_excuse_def urgency_base_def
      random_uniform_def)

text \<open>
  Claim C5, amended: for every urgency and every draw \<open>r\<close> of the random source, with
  \<open>0 \<le> r < 1\<close>, the jitter lies between -0.8 and 1.2; whenever the resolved candidate
  list is not empty, the score of the fallback selector is the base score of the urgency
  (6.5 for low, 7.5 for medium, 8.5 for high, 7.5 for any other) plus that jitter, clamped
  to the interval from 5 to 10; when the list is empty the score is 7. In every case the
  returned score lies between 5 and 10.
\<close>

theorem fallback_score_range:
  assumes "0 \<le> r" and "r < 1"
  shows "- 0.8 \<le> random_uniform r (- 0.8) 1.2 \<and> random_uniform r (- 0.8) 1.2 \<le> 1.2
    \<and> (excuse_options table category urgency language \<noteq> [] \<longrightarrow>
          out_believability_score (get_fallback_excuse table k r category scenario urgency language)
            = min (max (urgency_base urgency + random_uniform r (- 0.8) 1.2) 5.0) 10.0)
    \<and> (excuse_options table category urgency language = [] \<longrightarrow>
          out_believability_score (get_fallback_excuse table k r category scenario urgency language) = 7.0)
    \<and> 5.0 \<le> out_believability_score (get_fallback_excuse table k r category scenario urgency language)
    \<and> out_believability_score (get_fallback_excuse table k r category scenario urgency language) \<le> 10.0"
proof (cases "excuse_options table category urgency language = []")
  case True
  then show ?thesis
    using random_uniform_range [OF assms] by (simp add: fallback_failed sentinel_excuse_def)
next
  case False
  then show ?thesis
    using random_uniform_range [OF assms] by (simp add: fallback_chosen)
qed

theorem fallback_score_range_witness:
  "(0::real) \<le> 1 / 2 \<and> (1 / 2 :: real) < 1
   \<and> random_uniform (1 / 2) (- 0.8) 1.2 = 0.2
   \<and> excuse_options minimal_fallbacks ''work'' ''high'' ''en'' \<noteq> []
   \<and> out_believability_score (get_fallback_excuse minimal_fallbacks 0 (1 / 2) ''work'' ''x'' ''high'' ''en'') = 8.7
   \<and> excuse_options empty_high_table ''work'' ''high'' ''en'' = []
   \<and> out_believability_score (get_fallback_excuse empty_high_table 0 (1 / 2) ''work'' ''x'' ''high'' ''en'') = 7.0"
proof -
  have a: "(0::real) \<le> 1 / 2" and b: "(1 / 2 :: real) < 1"
    by simp_all
  have v: "urgency_base ''high'' = 8.5"
    by (simp add: urgency_base_def)
  show ?thesis
    using fallback_score_range [OF a b, of minimal_fallbacks "''work''" "''high''" "''en''" 0 "''x''"]
      fallback_score_range [OF a b, of empty_high_table "''work''" "''high''" "''en''" 0 "''x''"]
    by (simp add: options_minimal_high options_empty_high random_uniform_def v)
qed

subsection \<open>The sentinel\<close>

text \<open>
  Claim C7: when the selection raises an exception (in this model: \<^verbatim>\<open>random.choice\<close>
  on an empty candidate list, which raises \<^verbatim>\<open>IndexError\<close>), \<open>get_fallback_excuse\<close>
  returns the sentinel: the fixed sentence with score 7.0 and the given category, scenario
  and urgency.
\<close>

theorem fallback_sentinel:
  "(random_choice k (excuse_options table category urgency language) = Inl e \<longrightarrow>
      get_fallback_excuse table k r category scenario urgency language
        = \<lparr>out_excuse = ''I have an unexpected situation that requires my attention.'',
           out_believability_score = 7.0,
           out_category = category, out_scenario = scenario, out_urgency = urgency\<rparr>)
   \<and> (excuse_options table category urgency language = [] \<longrightarrow>
      random_choice k (excuse_options table category urgency language) = Inl IndexError)"
proof -
  have "random_choice k (excuse_options table category urgency language) = Inl e \<longrightarrow>
      get_fallback_excuse table k r category scenario urgency language
        = \<lparr>out_excuse = ''I have an unexpected situation that requires my attention.'',
           out_believability_score = 7.0,
           out_category = category, out_scenario = scenario, out_urgency = urgency\<rparr>"
    by (simp add: get_fallback_excuse_def)
  moreover have "excuse_options table category urgency language = [] \<longrightarrow>
      random_choice k (excuse_options table category urgency language) = Inl IndexError"
    by (simp add: random_choice_def)
  ultimately show ?thesis by blast
qed

theorem fallback_sentinel_witness:
  "excuse_options empty_high_table ''work'' ''high'' ''en'' = []
   \<and> random_choice 5 (excuse_options empty_high_table ''work'' ''high'' ''en'') = Inl IndexError
   \<and> get_fallback_excuse empty_high_table 5 (1 / 4) ''work'' ''late again'' ''high'' ''en''
       = \<lparr>out_excuse = ''I have an unexpected situation that requires my attention.'',
          out_believability_score = 7.0,
          out_category = ''work'', out_scenario = ''late again'', out_urgency = ''high''\<rparr>"
  using fallback_sentinel [of 5 empty_high_table "''work''" "''high''" "''en''" IndexError
      "1 / 4" "''late again''"]
  by (simp add: options_empty_high)

subsection \<open>Urgencies outside low, medium and high\<close>

text \<open>
  Claim C9: for an urgency that is none of low, medium and high, the scorer adds no
  urgency bonus and returns 5 plus the word-count and specificity contributions, at most
  10; and the fallback selector takes 7.5 as the base score, so that a text chosen from a
  non-empty list gets 7.5 plus the jitter, clamped to the interval from 5 to 10.
\<close>

theorem unknown_urgency_defaults:
  assumes "urgency \<notin> {''low'', ''medium'', ''high''}"
  shows "urgency_bonus excuse_text urgency = 0
         \<and> calculate_believability excuse_text category urgency
             = min (5.0 + length_adjust excuse_text + specificity_bonus (specificity excuse_text)) 10.0
         \<and> dict_get base_score urgency 7.5 = 7.5
         \<and> (excuse_options table category urgency language \<noteq> [] \<longrightarrow>
              out_believability_score (get_fallback_excuse table k r category scenario urgency language)
                = min (max (7.5 + random_uniform r (- 0.8) 1.2) 5.0) 10.0)"
proof -
  have ub: "urgency_bonus excuse_text urgency = 0"
    using urgency_keywords_other [OF assms] by (simp add: urgency_bonus_def)
  have bs: "dict_get base_score urgency d = d" for d
    using assms by (simp add: base_score_get)
  have b: "urgency_base urgency = 7.5"
    using assms by (simp add: urgency_base_def)
  show ?thesis
    by (simp add: calculate_believability_def fallback_chosen ub bs b)
qed

theorem unknown_urgency_defaults_witness:
  "''critical'' \<notin> {''low'', ''medium'', ''high''}
   \<and> urgency_bonus ''URGENT: hospital emergency'' ''critical'' = 0
   \<and> calculate_believability ''URGENT: hospital emergency'' ''work'' ''critical'' = 5.5
   \<and> dict_get base_score ''critical'' 7.5 = 7.5
   \<and> excuse_options minimal_fallbacks ''work'' ''critical'' ''en'' \<noteq> []
   \<and> out_believability_score
        (get_fallback_excuse minimal_fallbacks 0 (1 / 2) ''work'' ''x'' ''critical'' ''en'') = 7.7"
proof -
  have h: "''critical'' \<notin> {''low'', ''medium'', ''high''}"
    by simp
  have la: "length_adjust ''URGENT: hospital emergency'' = - 1"
    by code_simp
  have sp: "specificity ''URGENT: hospital emergency'' = 3"
    by code_simp
  have ne: "excuse_options minimal_fallbacks ''work'' ''critical'' ''en'' \<noteq> []"
    by (simp add: table_defs minimal_fallbacks_def)
  show ?thesis
    using unknown_urgency_defaults [OF h, where excuse_text = "''URGENT: hospital emergency''"
        and category = "''work''" and table = minimal_fallbacks and language = "''en''"
        and k = 0 and r = "1 / 2" and scenario = "''x''"] ne
    by (simp add: la sp specificity_bonus_def random_uniform_def)
qed

section \<open>Properties of the generator\<close>

text \<open>
  Claim C3: without a configured key \<open>generate_excuse\<close> makes one call, to the fallback
  selector, and returns its result on the same arguments; with a key and an external
  request that raises any exception it makes one external request followed by one call to
  the fallback selector, whose result it returns: no second request, and a result in
  every case.
\<close>

theorem generate_excuse_single_fallback:
  "(api_key E = [] \<longrightarrow>
      generate_excuse E category scenario urgency language
        = ([FallbackCall],
           get_fallback_excuse (env_excuses_db E) (choice_draw E) (uniform_draw E)
             category scenario urgency language))
   \<and> (api_key E \<noteq> [] \<and> chat_completion E = Inl e \<longrightarrow>
      generate_excuse E category scenario urgency language
        = ([OpenAICall, FallbackCall],
           get_fallback_excuse (env_excuses_db E) (choice_draw E) (uniform_draw E)
             category scenario urgency language))"
proof -
  have "api_key E = [] \<longrightarrow>
      generate_excuse E category scenario urgency language
        = ([FallbackCall],
           get_fallback_excuse (env_excuses_db E) (choice_draw E) (uniform_draw E)
             category scenario urgency language)"
    by (simp add: generate_excuse_def fallback_of_def)
  moreover have "api_key E \<noteq> [] \<and> chat_completion E = Inl e \<longrightarrow>
      generate_excuse E category scenario urgency language
        = ([OpenAICall, FallbackCall],
           get_fallback_excuse (env_excuses_db E) (choice_draw E) (uniform_draw E)
             category scenario urgency language)"
    by (simp add: generate_excuse_def fallback_of_def)
  ultimately show ?thesis by blast
qed

theorem generate_excuse_single_fallback_witness:
  "api_key no_key_env = []
   \<and> generate_excuse no_key_env ''work'' ''x'' ''high'' ''en''
       = ([FallbackCall],
          \<lparr>out_excuse = ''I have an emergency that requires immediate attention.'',
           out_believability_score = 8.7,
           out_category = ''work'', out_scenario = ''x'', out_urgency = ''high''\<rparr>)
   \<and> api_key failing_env \<noteq> [] \<and> chat_completion failing_env = Inl (ExternalError ''quota'')
   \<and> generate_excuse failing_env ''work'' ''x'' ''high'' ''en''
       = ([OpenAICall, FallbackCall],
          \<lparr>out_excuse = ''I have an emergency that requires immediate attention.'',
           out_believability_score = 8.7,
           out_category = ''work'', out_scenario = ''x'', out_urgency = ''high''\<rparr>)"
  using generate_excuse_single_fallback [of no_key_env "''work''" "''x''" "''high''" "''en''"]
    generate_excuse_single_fallback [of failing_env "''work''" "''x''" "''high''" "''en''"
      "ExternalError ''quota''"]
  by (simp add: no_key_env_def failing_env_def fallback_minimal_high)

section \<open>Properties of the request handlers\<close>

lemma excuse_get_absent:
  "sqlite_integer j \<Longrightarrow> j \<notin> e_id ` set (excuses db) \<Longrightarrow> excuse_get db j = Inr None"
  by (auto simp: excuse_get_def find_None_iff)

lemma excuse_get_overflow: "\<not> sqlite_integer j \<Longrightarrow> excuse_get db j = Inl OverflowError"
  by (simp add: excuse_get_def)

text \<open>
  Claim C8 as stated fails: the number \<open>2 ^ 63\<close> is the id of no stored excuse, and a
  proof request with it does not get the failure \<^verbatim>\<open>Excuse not found\<close>: the lookup raises
  \<^verbatim>\<open>OverflowError\<close> and the request ends with a server error.
\<close>

theorem generate_proof_oversized_id_raises:
  "9223372036854775808 \<notin> e_id ` set (excuses sample_db)
   \<and> generate_proof always_renders sample_db 200 0
        \<lparr>rq_excuse_id = Some 9223372036854775808, rq_proof_type = Some ''email''\<rparr>
       = (Inl OverflowError, sample_db)
   \<and> fst (generate_proof always_renders sample_db 200 0
        \<lparr>rq_excuse_id = Some 9223372036854775808, rq_proof_type = Some ''email''\<rparr>)
       \<noteq> Inr (Failure ''Excuse not found'')"
  by (simp add: generate_proof_def excuse_get_def sqlite_integer_def sqlite_max_integer_def
      sqlite_min_integer_def sample_db_def sample_excuse_def)

text \<open>
  Claim C8, amended: when the \<^verbatim>\<open>excuse_id\<close> of a proof request is the id of no stored
  excuse, the store is left as it was: no proof document is added and no excuse is
  changed. When that \<^verbatim>\<open>excuse_id\<close> is missing or lies in the signed 64-bit range of the
  store's integers, \<open>generate_proof\<close> answers with the failure \<^verbatim>\<open>Excuse not found\<close>;
  when it lies outside that range, the lookup raises \<^verbatim>\<open>OverflowError\<close> and the request
  ends with a server error.
\<close>

theorem generate_proof_unknown_excuse:
  assumes "\<forall>j. rq_excuse_id data = Some j \<longrightarrow> j \<notin> e_id ` set (excuses db)"
  shows "snd (generate_proof R db now rowid_draw data) = db
         \<and> proof_documents (snd (generate_proof R db now rowid_draw data)) = proof_documents db
         \<and> excuses (snd (generate_proof R db now rowid_draw data)) = excuses db
         \<and> ((\<forall>j. rq_excuse_id data = Some j \<longrightarrow> sqlite_integer j) \<longrightarrow>
              fst (generate_proof R db now rowid_draw data) = Inr (Failure ''Excuse not found''))
         \<and> ((\<exists>j. rq_excuse_id data = Some j \<and> \<not> sqlite_integer j) \<longrightarrow>
              fst (generate_proof R db now rowid_draw data) = Inl OverflowError)"
proof (cases "rq_excuse_id data")
  case None
  then show ?thesis by (simp add: generate_proof_def)
next
  case (Some j)
  show ?thesis
  proof (cases "sqlite_integer j")
    case True
    with Some assms have "excuse_get db j = Inr None"
      by (simp add: excuse_get_absent)
    with Some True show ?thesis by (simp add: generate_proof_def)
  next
    case False
    then have "excuse_get db j = Inl OverflowError"
      by (rule excuse_get_overflow)
    with Some False show ?thesis by (simp add: generate_proof_def)
  qed
qed

theorem generate_proof_unknown_excuse_witness:
  "7 \<notin> e_id ` set (excuses sample_db) \<and> sqlite_integer 7
   \<and> generate_proof always_renders sample_db 200 0
        \<lparr>rq_excuse_id = Some 7, rq_proof_type = Some ''email''\<rparr>
       = (Inr (Failure ''Excuse not found''), sample_db)
   \<and> - 9223372036854775809 \<notin> e_id ` set (excuses sample_db)
   \<and> \<not> sqlite_integer (- 9223372036854775809)
   \<and> generate_proof always_renders sample_db 200 0
        \<lparr>rq_excuse_id = Some (- 9223372036854775809), rq_proof_type = Some ''email''\<rparr>
       = (Inl OverflowError, sample_db)
   \<and> generate_proof always_renders sample_db 200 0
        \<lparr>rq_excuse_id = None, rq_proof_type = Some ''email''\<rparr>
       = (Inr (Failure ''Excuse not found''), sample_db)"
proof -
  let ?small = "\<lparr>rq_excuse_id = Some 7, rq_proof_type = Some ''email''\<rparr>"
  let ?huge = "\<lparr>rq_excuse_id = Some (- 9223372036854775809), rq_proof_type = Some ''email''\<rparr>"
  let ?none = "\<lparr>rq_excuse_id = None :: int option, rq_proof_type = Some ''email''\<rparr>"
  have a: "7 \<notin> e_id ` set (excuses sample_db)"
    and b: "- 9223372036854775809 \<notin> e_id ` set (excuses sample_db)"
    by (simp_all add: sample_db_def sample_excuse_def)
  have c: "sqlite_integer 7" and d: "\<not> sqlite_integer (- 9223372036854775809)"
    by (simp_all add: sqlite_integer_def sqlite_max_integer_def sqlite_min_integer_def)
  have ha: "\<forall>j. rq_excuse_id ?small = Some j \<longrightarrow> j \<notin> e_id ` set (excuses sample_db)"
    using a by simp
  have hb: "\<forall>j. rq_excuse_id ?huge = Some j \<longrightarrow> j \<notin> e_id ` set (excuses sample_db)"
    using b by simp
  have hc: "\<forall>j. rq_excuse_id ?none = Some j \<longrightarrow> j \<notin> e_id ` set (excuses sample_db)"
    by simp
  have small: "generate_proof always_renders sample_db 200 0 ?small
      = (Inr (Failure ''Excuse not found''), sample_db)"
    using generate_proof_unknown_excuse [OF ha, of always_renders 200 0] c
    by (simp add: prod_eq_iff)
  have huge: "generate_proof always_renders sample_db 200 0 ?huge = (Inl OverflowError, sample_db)"
    using generate_proof_unknown_excuse [OF hb, of always_renders 200 0] d
    by (simp add: prod_eq_iff)
  have none: "generate_proof always_renders sample_db 200 0 ?none
      = (Inr (Failure ''Excuse not found''), sample_db)"
    using generate_proof_unknown_excuse [OF hc, of always_renders 200 0]
    by (simp add: prod_eq_iff)
  from a b c d small huge none show ?thesis by simp
qed

text \<open>For contrast, the same request with the id of the stored excuse changes the store.\<close>

lemma generate_proof_known_excuse:
  "generate_proof always_renders sample_db 200 0
      \<lparr>rq_excuse_id = Some 1, rq_proof_type = Some ''email''\<rparr>
     = (Inr (ProofResponse ''static/proofs/email.png'' ''/static/proofs/email.png''),
        \<lparr>users = [demo_user 100], excuses = [sample_excuse\<lparr>e_proof_generated := True\<rparr>],
         proof_documents = [\<lparr>p_id = 1, p_excuse_id = 1, p_document_type = ''email'',
            p_file_path = ''static/proofs/email.png'', p_generated_at = 200\<rparr>]\<rparr>)"
  by (simp add: generate_proof_def store_proof_def excuse_get_def sample_db_def sample_excuse_def
      json_get_def generate_proof_document_def always_renders_def next_id_def basename_def
      sqlite_integer_def sqlite_max_integer_def sqlite_min_integer_def)

subsection \<open>The lazily created user\<close>

text \<open>
  On a store with no user at all, a request for any user id in the range of the store's
  integers creates the user with id 1 and name \<^verbatim>\<open>demo_user\<close> and stores an excuse that
  carries the requested id.
\<close>

lemma first_request_creates_demo_user:
  assumes "users db = []" and "rq_user_id data = Some user_id" and "sqlite_integer user_id"
  shows "users (snd (generate_excuse_route E db now rowid_draw data)) = [demo_user now]
         \<and> length (excuses (snd (generate_excuse_route E db now rowid_draw data)))
             = Suc (length (excuses db))
         \<and> e_user_id (last (excuses (snd (generate_excuse_route E db now rowid_draw data))))
             = user_id
         \<and> (user_id \<noteq> 1 \<longrightarrow>
              user_get (snd (generate_excuse_route E db now rowid_draw data)) user_id = Inr None)"
  using assms
  by (simp add: generate_excuse_route_def user_get_def commit_user_def json_get_def
      demo_user_def save_excuse_def Let_def)

text \<open>
  Claim C10 says that on a request whose \<^verbatim>\<open>user_id\<close> has no user row the excuse is
  persisted with the requested id beside a default user of id 1. A first request for
  user 2 on the empty store does so and leaves \<open>sample_db\<close>: the demo user with id 1,
  no user 2. A second request for user 2 again finds no user 2 and inserts a user with
  id 1 again; the commit raises \<^verbatim>\<open>IntegrityError\<close>, the request fails and no excuse is
  persisted.
\<close>

theorem second_request_for_absent_user_fails:
  "generate_excuse_route no_key_env empty_db 100 0 request_user_2
     = (Inr (ExcuseResponse 1 ''I have an emergency that requires immediate attention.'' 8.7
               ''work'' ''high''), sample_db)
   \<and> user_get sample_db 2 = Inr None
   \<and> generate_excuse_route E sample_db now rowid_draw request_user_2
       = (Inl IntegrityError, sample_db)"
proof -
  have range: "sqlite_integer 2"
    by (simp add: sqlite_integer_def sqlite_max_integer_def sqlite_min_integer_def)
  have gen: "snd (generate_excuse no_key_env ''work'' ''x'' ''high'' ''en'')
      = \<lparr>out_excuse = ''I have an emergency that requires immediate attention.'',
         out_believability_score = 8.7,
         out_category = ''work'', out_scenario = ''x'', out_urgency = ''high''\<rparr>"
    by (simp add: generate_excuse_def fallback_of_def no_key_env_def fallback_minimal_high)
  have first: "generate_excuse_route no_key_env empty_db 100 0 request_user_2
     = (Inr (ExcuseResponse 1 ''I have an emergency that requires immediate attention.'' 8.7
               ''work'' ''high''), sample_db)"
    by (simp add: generate_excuse_route_def user_get_def range commit_user_def empty_db_def
        request_user_2_def json_get_def gen save_excuse_def next_id_def sample_db_def
        sample_excuse_def demo_user_def Let_def)
  have absent: "user_get sample_db 2 = Inr None"
    by (simp add: user_get_def range sample_db_def demo_user_def)
  have second: "generate_excuse_route E sample_db now rowid_draw request_user_2
      = (Inl IntegrityError, sample_db)"
    by (simp add: generate_excuse_route_def user_get_def range commit_user_def sample_db_def
        request_user_2_def json_get_def demo_user_def)
  from first absent second show ?thesis by simp
qed

end
